theory Spec2Isabelle
  imports Main "HOL-Library.Word"
begin

section \<open>Solidity value types\<close>

type_synonym bytes32 = "256 word"
type_synonym uint256 = "256 word"
type_synonym uint8 = "8 word"
type_synonym address = "160 word"
type_synonym bytes = "8 word list"

section \<open>The FHE library, as the contract sees it\<close>

text \<open>
  The contract imports \<^verbatim>\<open>FHE\<close>, \<^verbatim>\<open>euint8\<close>, \<^verbatim>\<open>ebool\<close>, \<^verbatim>\<open>externalEuint8\<close> and
  \<^verbatim>\<open>externalEbool\<close> from \<^verbatim>\<open>@fhevm/solidity\<close>, which is not part of the repository.
  On chain an \<^verbatim>\<open>euint8\<close> is a \<^verbatim>\<open>bytes32\<close> handle; the value behind the handle lives
  with the coprocessor. The model keeps both: the handle the contract stores and returns,
  and the plaintext the ciphertext decrypts to, which the contract can reach only through
  the library's operators.
\<close>

record euint8 =
  handle8 :: bytes32
  clear8 :: uint8

record ebool =
  handleB :: bytes32
  clearB :: bool

datatype fhe_op = FheTrivialEncrypt | FheGe | FheLe | FheAnd | FheOr | FheNot | FheSelect

text \<open>
  What the library leaves to its deployment is a parameter of the model: the input verifier
  (called with the contract's address, the transaction sender, the external handle and the
  proof bytes; \<open>None\<close> when the proof does not verify for that handle, sender and contract)
  and the derivation of the handle of a computed ciphertext from the operator and the
  handles of its operands.
\<close>

record fhevm =
  verifyEuint8 :: "address \<Rightarrow> address \<Rightarrow> bytes32 \<Rightarrow> bytes \<Rightarrow> euint8 option"
  verifyEbool :: "address \<Rightarrow> address \<Rightarrow> bytes32 \<Rightarrow> bytes \<Rightarrow> ebool option"
  resultHandle :: "fhe_op \<Rightarrow> bytes32 list \<Rightarrow> bytes32"

datatype error = ProofVerificationError

record tx_env =
  msg_sender :: address
  block_timestamp :: uint256
  this_address :: address

definition FHE_fromExternal_euint8 :: "fhevm \<Rightarrow> tx_env \<Rightarrow> bytes32 \<Rightarrow> bytes \<Rightarrow> error + euint8" where
  "FHE_fromExternal_euint8 L env inputHandle inputProof =
     (case verifyEuint8 L (this_address env) (msg_sender env) inputHandle inputProof of
        None \<Rightarrow> Inl ProofVerificationError
      | Some v \<Rightarrow> Inr v)"

definition FHE_fromExternal_ebool :: "fhevm \<Rightarrow> tx_env \<Rightarrow> bytes32 \<Rightarrow> bytes \<Rightarrow> error + ebool" where
  "FHE_fromExternal_ebool L env inputHandle inputProof =
     (case verifyEbool L (this_address env) (msg_sender env) inputHandle inputProof of
        None \<Rightarrow> Inl ProofVerificationError
      | Some v \<Rightarrow> Inr v)"

definition FHE_asEuint8 :: "fhevm \<Rightarrow> uint8 \<Rightarrow> euint8" where
  "FHE_asEuint8 L v = \<lparr>handle8 = resultHandle L FheTrivialEncrypt [ucast v], clear8 = v\<rparr>"

definition FHE_ge :: "fhevm \<Rightarrow> euint8 \<Rightarrow> euint8 \<Rightarrow> ebool" where
  "FHE_ge L a b = \<lparr>handleB = resultHandle L FheGe [handle8 a, handle8 b], clearB = (clear8 b \<le> clear8 a)\<rparr>"

definition FHE_le :: "fhevm \<Rightarrow> euint8 \<Rightarrow> euint8 \<Rightarrow> ebool" where
  "FHE_le L a b = \<lparr>handleB = resultHandle L FheLe [handle8 a, handle8 b], clearB = (clear8 a \<le> clear8 b)\<rparr>"

definition FHE_and :: "fhevm \<Rightarrow> ebool \<Rightarrow> ebool \<Rightarrow> ebool" where
  "FHE_and L a b = \<lparr>handleB = resultHandle L FheAnd [handleB a, handleB b], clearB = (clearB a \<and> clearB b)\<rparr>"

definition FHE_or :: "fhevm \<Rightarrow> ebool \<Rightarrow> ebool \<Rightarrow> ebool" where
  "FHE_or L a b = \<lparr>handleB = resultHandle L FheOr [handleB a, handleB b], clearB = (clearB a \<or> clearB b)\<rparr>"

definition FHE_not :: "fhevm \<Rightarrow> ebool \<Rightarrow> ebool" where
  "FHE_not L a = \<lparr>handleB = resultHandle L FheNot [handleB a], clearB = (\<not> clearB a)\<rparr>"

definition FHE_select :: "fhevm \<Rightarrow> ebool \<Rightarrow> euint8 \<Rightarrow> euint8 \<Rightarrow> euint8" where
  "FHE_select L control ifTrue ifFalse =
     \<lparr>handle8 = resultHandle L FheSelect [handleB control, handle8 ifTrue, handle8 ifFalse],
      clear8 = (if clearB control then clear8 ifTrue else clear8 ifFalse)\<rparr>"

definition FHE_isInitialized :: "euint8 \<Rightarrow> bool" where
  "FHE_isInitialized v = (handle8 v \<noteq> 0)"

definition FHE_toBytes32 :: "euint8 \<Rightarrow> bytes32" where
  "FHE_toBytes32 v = handle8 v"

section \<open>The contract MediShieldPreCheck\<close>

definition CATEGORY_ELIGIBLE :: uint8 where
  "CATEGORY_ELIGIBLE = 1"

definition CATEGORY_MODERATE :: uint8 where
  "CATEGORY_MODERATE = 2"

definition CATEGORY_NOT_ELIGIBLE :: uint8 where
  "CATEGORY_NOT_ELIGIBLE = 3"

datatype event = EligibilityEvaluated address bytes32 uint256

text \<open>
  The state a call can change: the two storage mappings of the contract (a mapping of
  Solidity holds the zero value at every key never written), the persistent permissions of
  the access-control list that \<^verbatim>\<open>FHE.allow\<close> and \<^verbatim>\<open>FHE.allowThis\<close> write, and the
  event log.
\<close>

record chain =
  lastCategory :: "address \<Rightarrow> euint8"
  lastEvaluatedAt :: "address \<Rightarrow> uint256"
  acl :: "(bytes32 \<times> address) set"
  events :: "event list"

definition deployed :: chain where
  "deployed = \<lparr>lastCategory = (\<lambda>_. \<lparr>handle8 = 0, clear8 = 0\<rparr>),
               lastEvaluatedAt = (\<lambda>_. 0),
               acl = {},
               events = []\<rparr>"

definition FHE_allow :: "euint8 \<Rightarrow> address \<Rightarrow> chain \<Rightarrow> chain" where
  "FHE_allow v account s = s\<lparr>acl := insert (handle8 v, account) (acl s)\<rparr>"

definition FHE_allowThis :: "tx_env \<Rightarrow> euint8 \<Rightarrow> chain \<Rightarrow> chain" where
  "FHE_allowThis env v s = FHE_allow v (this_address env) s"

definition emit :: "event \<Rightarrow> chain \<Rightarrow> chain" where
  "emit e s = s\<lparr>events := events s @ [e]\<rparr>"

text \<open>
  Lines 45 to 62 of the contract, the rule over the four verified ciphertexts. Each local
  variable of the source that a later line reads twice is a definition of its own.
\<close>

definition ageInRange_of :: "fhevm \<Rightarrow> euint8 \<Rightarrow> ebool" where
  "ageInRange_of L age =
     (let lowerBound = FHE_ge L age (FHE_asEuint8 L 18);
          upperBound = FHE_le L age (FHE_asEuint8 L 64)
      in FHE_and L lowerBound upperBound)"

definition riskFlags_of :: "fhevm \<Rightarrow> ebool \<Rightarrow> ebool \<Rightarrow> ebool \<Rightarrow> ebool" where
  "riskFlags_of L hasHistory hasChronic riskyLifestyle =
     FHE_or L (FHE_or L hasHistory hasChronic) riskyLifestyle"

definition eligible_of :: "fhevm \<Rightarrow> euint8 \<Rightarrow> ebool \<Rightarrow> ebool \<Rightarrow> ebool \<Rightarrow> ebool" where
  "eligible_of L age hasHistory hasChronic riskyLifestyle =
     FHE_and L (ageInRange_of L age) (FHE_not L (riskFlags_of L hasHistory hasChronic riskyLifestyle))"

definition moderate_of :: "fhevm \<Rightarrow> euint8 \<Rightarrow> ebool \<Rightarrow> ebool \<Rightarrow> ebool \<Rightarrow> ebool" where
  "moderate_of L age hasHistory hasChronic riskyLifestyle =
     FHE_and L (ageInRange_of L age) (riskFlags_of L hasHistory hasChronic riskyLifestyle)"

definition category_of :: "fhevm \<Rightarrow> euint8 \<Rightarrow> ebool \<Rightarrow> ebool \<Rightarrow> ebool \<Rightarrow> euint8" where
  "category_of L age hasHistory hasChronic riskyLifestyle =
     (let eligible = eligible_of L age hasHistory hasChronic riskyLifestyle;
          moderate = moderate_of L age hasHistory hasChronic riskyLifestyle;
          eligibleLabel = FHE_asEuint8 L CATEGORY_ELIGIBLE;
          moderateLabel = FHE_asEuint8 L CATEGORY_MODERATE;
          notEligibleLabel = FHE_asEuint8 L CATEGORY_NOT_ELIGIBLE
      in FHE_select L eligible eligibleLabel
           (FHE_select L moderate moderateLabel notEligibleLabel))"

text \<open>
  Lines 64 to 72: the writes, the two permissions, the returned handle and the event.
\<close>

definition record_result :: "tx_env \<Rightarrow> euint8 \<Rightarrow> chain \<Rightarrow> bytes32 \<times> chain" where
  "record_result env category s =
     (let s1 = s\<lparr>lastCategory := (lastCategory s)(msg_sender env := category)\<rparr>;
          s2 = s1\<lparr>lastEvaluatedAt := (lastEvaluatedAt s1)(msg_sender env := block_timestamp env)\<rparr>;
          s3 = FHE_allow (lastCategory s2 (msg_sender env)) (msg_sender env) s2;
          s4 = FHE_allowThis env (lastCategory s3 (msg_sender env)) s3;
          categoryHandle = FHE_toBytes32 (lastCategory s4 (msg_sender env));
          s5 = emit (EligibilityEvaluated (msg_sender env) categoryHandle (block_timestamp env)) s4
      in (categoryHandle, s5))"

text \<open>
  \<^verbatim>\<open>checkEligibility\<close>: the four \<^verbatim>\<open>FHE.fromExternal\<close> calls in the source's order,
  each of which reverts the call when its proof does not verify; then the rule; then the
  writes. \<open>Inl\<close> is the revert.
\<close>

definition checkEligibility ::
  "fhevm \<Rightarrow> tx_env \<Rightarrow> bytes32 \<Rightarrow> bytes \<Rightarrow> bytes32 \<Rightarrow> bytes \<Rightarrow> bytes32 \<Rightarrow> bytes \<Rightarrow> bytes32 \<Rightarrow> bytes
     \<Rightarrow> chain \<Rightarrow> error + (bytes32 \<times> chain)" where
  "checkEligibility L env ageHandle ageProof historyHandle historyProof
       chronicHandle chronicProof lifestyleHandle lifestyleProof s =
     (case FHE_fromExternal_euint8 L env ageHandle ageProof of
        Inl e \<Rightarrow> Inl e
      | Inr age \<Rightarrow>
     (case FHE_fromExternal_ebool L env historyHandle historyProof of
        Inl e \<Rightarrow> Inl e
      | Inr hasHistory \<Rightarrow>
     (case FHE_fromExternal_ebool L env chronicHandle chronicProof of
        Inl e \<Rightarrow> Inl e
      | Inr hasChronic \<Rightarrow>
     (case FHE_fromExternal_ebool L env lifestyleHandle lifestyleProof of
        Inl e \<Rightarrow> Inl e
      | Inr riskyLifestyle \<Rightarrow>
          Inr (record_result env (category_of L age hasHistory hasChronic riskyLifestyle) s)))))"

definition getLastEligibility :: "chain \<Rightarrow> address \<Rightarrow> bytes32 \<times> uint256" where
  "getLastEligibility s account =
     (let stored = lastCategory s account
      in if FHE_isInitialized stored
         then (FHE_toBytes32 stored, lastEvaluatedAt s account)
         else (0, 0))"

text \<open>
  A reverted call leaves the state as it was: the state after a transaction is the state
  the call returns, or the state before it when the call reverts.
\<close>

record call =
  call_env :: tx_env
  arg_ageHandle :: bytes32
  arg_ageProof :: bytes
  arg_historyHandle :: bytes32
  arg_historyProof :: bytes
  arg_chronicHandle :: bytes32
  arg_chronicProof :: bytes
  arg_lifestyleHandle :: bytes32
  arg_lifestyleProof :: bytes

definition invoke :: "fhevm \<Rightarrow> call \<Rightarrow> chain \<Rightarrow> error + (bytes32 \<times> chain)" where
  "invoke L c s =
     checkEligibility L (call_env c) (arg_ageHandle c) (arg_ageProof c) (arg_historyHandle c) (arg_historyProof c)
       (arg_chronicHandle c) (arg_chronicProof c) (arg_lifestyleHandle c) (arg_lifestyleProof c) s"

definition transact :: "fhevm \<Rightarrow> call \<Rightarrow> chain \<Rightarrow> chain" where
  "transact L c s = (case invoke L c s of Inl e \<Rightarrow> s | Inr (h, s') \<Rightarrow> s')"

fun run :: "fhevm \<Rightarrow> call list \<Rightarrow> chain \<Rightarrow> chain" where
  "run L [] s = s"
| "run L (c # cs) s = run L cs (transact L c s)"

text \<open>
  The handle and timestamp of the most recent successful call of \<open>account\<close> in a
  sequence of transactions, \<open>acc\<close> when there is none.
\<close>

fun lastSuccess ::
  "fhevm \<Rightarrow> address \<Rightarrow> call list \<Rightarrow> chain \<Rightarrow> (bytes32 \<times> uint256) option \<Rightarrow> (bytes32 \<times> uint256) option" where
  "lastSuccess L account [] s acc = acc"
| "lastSuccess L account (c # cs) s acc =
     lastSuccess L account cs (transact L c s)
       (case invoke L c s of
          Inl e \<Rightarrow> acc
        | Inr (h, s') \<Rightarrow>
            if msg_sender (call_env c) = account
            then Some (h, block_timestamp (call_env c)) else acc)"

section \<open>Reading a result\<close>

text \<open>
  The four ciphertexts a call computes with, when all four proofs verify.
\<close>

definition verifiedInputs ::
  "fhevm \<Rightarrow> tx_env \<Rightarrow> bytes32 \<Rightarrow> bytes \<Rightarrow> bytes32 \<Rightarrow> bytes \<Rightarrow> bytes32 \<Rightarrow> bytes \<Rightarrow> bytes32 \<Rightarrow> bytes
     \<Rightarrow> (euint8 \<times> ebool \<times> ebool \<times> ebool) option" where
  "verifiedInputs L env ageHandle ageProof historyHandle historyProof
       chronicHandle chronicProof lifestyleHandle lifestyleProof =
     (case verifyEuint8 L (this_address env) (msg_sender env) ageHandle ageProof of
        None \<Rightarrow> None
      | Some age \<Rightarrow>
     (case verifyEbool L (this_address env) (msg_sender env) historyHandle historyProof of
        None \<Rightarrow> None
      | Some hasHistory \<Rightarrow>
     (case verifyEbool L (this_address env) (msg_sender env) chronicHandle chronicProof of
        None \<Rightarrow> None
      | Some hasChronic \<Rightarrow>
     (case verifyEbool L (this_address env) (msg_sender env) lifestyleHandle lifestyleProof of
        None \<Rightarrow> None
      | Some riskyLifestyle \<Rightarrow> Some (age, hasHistory, hasChronic, riskyLifestyle)))))"

text \<open>
  What the caller reads back after a call, as the contract's test does: the call returns a
  handle, and the caller decrypts the ciphertext stored for it under that handle. \<open>None\<close>
  when the call reverts or the returned handle is not the stored one.
\<close>

definition decryptedCategory ::
  "fhevm \<Rightarrow> tx_env \<Rightarrow> bytes32 \<Rightarrow> bytes \<Rightarrow> bytes32 \<Rightarrow> bytes \<Rightarrow> bytes32 \<Rightarrow> bytes \<Rightarrow> bytes32 \<Rightarrow> bytes
     \<Rightarrow> chain \<Rightarrow> uint8 option" where
  "decryptedCategory L env ageHandle ageProof historyHandle historyProof
       chronicHandle chronicProof lifestyleHandle lifestyleProof s =
     (case checkEligibility L env ageHandle ageProof historyHandle historyProof
             chronicHandle chronicProof lifestyleHandle lifestyleProof s of
        Inl e \<Rightarrow> None
      | Inr (h, s') \<Rightarrow>
          if h = FHE_toBytes32 (lastCategory s' (msg_sender env))
             \<and> (h, msg_sender env) \<in> acl s'
          then Some (clear8 (lastCategory s' (msg_sender env)))
          else None)"

text \<open>
  A small instance of the library for running the model: a proof is the plaintext byte
  itself, accepted for any nonzero handle, and every computed handle is the number of its
  operator.
\<close>

definition mockFhevm :: fhevm where
  "mockFhevm =
     \<lparr>verifyEuint8 = (\<lambda>this sender h p.
        case p of [v] \<Rightarrow> if h \<noteq> 0 then Some \<lparr>handle8 = h, clear8 = v\<rparr> else None
                | _ \<Rightarrow> None),
      verifyEbool = (\<lambda>this sender h p.
        case p of [v] \<Rightarrow> if h \<noteq> 0 \<and> v \<le> 1 then Some \<lparr>handleB = h, clearB = (v = 1)\<rparr> else None
                | _ \<Rightarrow> None),
      resultHandle = (\<lambda>op args.
        case op of FheTrivialEncrypt \<Rightarrow> 1 | FheGe \<Rightarrow> 2 | FheLe \<Rightarrow> 3 | FheAnd \<Rightarrow> 4
                 | FheOr \<Rightarrow> 5 | FheNot \<Rightarrow> 6 | FheSelect \<Rightarrow> 7)\<rparr>"

definition applicant :: tx_env where
  "applicant = \<lparr>msg_sender = 0xA11CE, block_timestamp = 1700000000, this_address = 0xC0DE\<rparr>"

text \<open>
  The two storage slots of an account, as they are, before \<^verbatim>\<open>getLastEligibility\<close>
  looks at them.
\<close>

definition storedPair :: "chain \<Rightarrow> address \<Rightarrow> bytes32 \<times> uint256" where
  "storedPair s account = (handle8 (lastCategory s account), lastEvaluatedAt s account)"

text \<open>
  Two transactions for running the model: one whose four proofs verify, and one whose last
  proof is empty.
\<close>

definition exampleCall :: call where
  "exampleCall = \<lparr>call_env = applicant,
     arg_ageHandle = 11, arg_ageProof = [30],
     arg_historyHandle = 12, arg_historyProof = [0],
     arg_chronicHandle = 13, arg_chronicProof = [0],
     arg_lifestyleHandle = 14, arg_lifestyleProof = [0]\<rparr>"

definition exampleBadCall :: call where
  "exampleBadCall = exampleCall\<lparr>arg_ageProof := [70], arg_lifestyleProof := []\<rparr>"

definition otherApplicant :: tx_env where
  "otherApplicant = \<lparr>msg_sender = 0xB0B, block_timestamp = 1700000012, this_address = 0xC0DE\<rparr>"

section \<open>The page: the submission handler\<close>






datatype fhe_status = Fhe_idle | Fhe_loading | Fhe_ready | Fhe_error






subsection \<open>Strings\<close>








subsection \<open>The handler\<close>










subsection \<open>Pages and worlds for running the handler\<close>





section \<open>The rule on plaintexts\<close>

lemma clearB_ageInRange_of:
  "clearB (ageInRange_of L age) = (18 \<le> clear8 age \<and> clear8 age \<le> 64)"
  by (simp add: ageInRange_of_def Let_def FHE_ge_def FHE_le_def FHE_and_def FHE_asEuint8_def)

lemma clearB_riskFlags_of:
  "clearB (riskFlags_of L hasHistory hasChronic riskyLifestyle) =
     (clearB hasHistory \<or> clearB hasChronic \<or> clearB riskyLifestyle)"
  by (simp add: riskFlags_of_def FHE_or_def)

lemma clearB_eligible_of:
  "clearB (eligible_of L age hasHistory hasChronic riskyLifestyle) =
     ((18 \<le> clear8 age \<and> clear8 age \<le> 64)
      \<and> \<not> (clearB hasHistory \<or> clearB hasChronic \<or> clearB riskyLifestyle))"
  by (simp add: eligible_of_def FHE_and_def FHE_not_def clearB_ageInRange_of clearB_riskFlags_of)

lemma clearB_moderate_of:
  "clearB (moderate_of L age hasHistory hasChronic riskyLifestyle) =
     ((18 \<le> clear8 age \<and> clear8 age \<le> 64)
      \<and> (clearB hasHistory \<or> clearB hasChronic \<or> clearB riskyLifestyle))"
  by (simp add: moderate_of_def FHE_and_def clearB_ageInRange_of clearB_riskFlags_of)

lemma clear8_category_of:
  "clear8 (category_of L age hasHistory hasChronic riskyLifestyle) =
     (if clearB (eligible_of L age hasHistory hasChronic riskyLifestyle) then CATEGORY_ELIGIBLE
      else if clearB (moderate_of L age hasHistory hasChronic riskyLifestyle) then CATEGORY_MODERATE
      else CATEGORY_NOT_ELIGIBLE)"
  by (simp add: category_of_def Let_def FHE_select_def FHE_asEuint8_def)

section \<open>What a successful call does\<close>

lemma checkEligibility_verified:
  assumes "verifiedInputs L env ageHandle ageProof historyHandle historyProof
             chronicHandle chronicProof lifestyleHandle lifestyleProof
           = Some (age, hasHistory, hasChronic, riskyLifestyle)"
  shows "checkEligibility L env ageHandle ageProof historyHandle historyProof
             chronicHandle chronicProof lifestyleHandle lifestyleProof s
         = Inr (record_result env (category_of L age hasHistory hasChronic riskyLifestyle) s)"
  using assms
  by (auto simp: verifiedInputs_def checkEligibility_def FHE_fromExternal_euint8_def
      FHE_fromExternal_ebool_def split: option.splits)

lemma checkEligibility_unverified:
  assumes "verifiedInputs L env ageHandle ageProof historyHandle historyProof
             chronicHandle chronicProof lifestyleHandle lifestyleProof = None"
  shows "checkEligibility L env ageHandle ageProof historyHandle historyProof
             chronicHandle chronicProof lifestyleHandle lifestyleProof s
         = Inl ProofVerificationError"
  using assms
  by (auto simp: verifiedInputs_def checkEligibility_def FHE_fromExternal_euint8_def
      FHE_fromExternal_ebool_def split: option.splits)

lemma record_result_handle: "fst (record_result env c s) = handle8 c"
  by (simp add: record_result_def Let_def FHE_allow_def FHE_allowThis_def FHE_toBytes32_def emit_def)

lemma record_result_lastCategory:
  "lastCategory (snd (record_result env c s)) = (lastCategory s)(msg_sender env := c)"
  by (simp add: record_result_def Let_def FHE_allow_def FHE_allowThis_def emit_def)

lemma record_result_lastEvaluatedAt:
  "lastEvaluatedAt (snd (record_result env c s))
     = (lastEvaluatedAt s)(msg_sender env := block_timestamp env)"
  by (simp add: record_result_def Let_def FHE_allow_def FHE_allowThis_def emit_def)

lemma record_result_acl:
  "acl (snd (record_result env c s))
     = insert (handle8 c, this_address env) (insert (handle8 c, msg_sender env) (acl s))"
  by (simp add: record_result_def Let_def FHE_allow_def FHE_allowThis_def emit_def)

lemma record_result_events:
  "events (snd (record_result env c s))
     = events s @ [EligibilityEvaluated (msg_sender env) (handle8 c) (block_timestamp env)]"
  by (simp add: record_result_def Let_def FHE_allow_def FHE_allowThis_def FHE_toBytes32_def emit_def)

lemma decryptedCategory_verified:
  assumes "verifiedInputs L env ageHandle ageProof historyHandle historyProof
             chronicHandle chronicProof lifestyleHandle lifestyleProof
           = Some (age, hasHistory, hasChronic, riskyLifestyle)"
  shows "decryptedCategory L env ageHandle ageProof historyHandle historyProof
             chronicHandle chronicProof lifestyleHandle lifestyleProof s
         = Some (clear8 (category_of L age hasHistory hasChronic riskyLifestyle))"
proof -
  obtain h s' where r: "record_result env (category_of L age hasHistory hasChronic riskyLifestyle) s = (h, s')"
    by (cases "record_result env (category_of L age hasHistory hasChronic riskyLifestyle) s")
  have h: "h = handle8 (category_of L age hasHistory hasChronic riskyLifestyle)"
    using record_result_handle [of env "category_of L age hasHistory hasChronic riskyLifestyle" s] r
    by simp
  have c: "lastCategory s' (msg_sender env) = category_of L age hasHistory hasChronic riskyLifestyle"
    using record_result_lastCategory [of env "category_of L age hasHistory hasChronic riskyLifestyle" s] r
    by simp
  have a: "(h, msg_sender env) \<in> acl s'"
    using record_result_acl [of env "category_of L age hasHistory hasChronic riskyLifestyle" s] r h
    by simp
  show ?thesis
    by (simp add: decryptedCategory_def checkEligibility_verified [OF assms] r h [symmetric] c a
        FHE_toBytes32_def)
qed

section \<open>The three categories\<close>

text \<open>
  C1. When the four proofs verify, the age behind the age ciphertext is between 18 and 64
  inclusive and none of the three risk flags is set, \<^verbatim>\<open>checkEligibility\<close> succeeds and
  the ciphertext it stores and returns for the caller decrypts to Eligible, which is 1.
\<close>

theorem checkEligibility_eligible:
  assumes "verifiedInputs L env ageHandle ageProof historyHandle historyProof
             chronicHandle chronicProof lifestyleHandle lifestyleProof
           = Some (age, hasHistory, hasChronic, riskyLifestyle)"
    and "18 \<le> clear8 age" and "clear8 age \<le> 64"
    and "\<not> clearB hasHistory" and "\<not> clearB hasChronic" and "\<not> clearB riskyLifestyle"
  shows "decryptedCategory L env ageHandle ageProof historyHandle historyProof
           chronicHandle chronicProof lifestyleHandle lifestyleProof s = Some CATEGORY_ELIGIBLE \<and> CATEGORY_ELIGIBLE = 1"
  using assms(2-)
  by (simp add: decryptedCategory_verified [OF assms(1)] clear8_category_of clearB_eligible_of
      CATEGORY_ELIGIBLE_def)

theorem checkEligibility_eligible_witness:
  "decryptedCategory mockFhevm applicant 11 [30] 12 [0] 13 [0] 14 [0] deployed = Some 1"
  using checkEligibility_eligible [of mockFhevm applicant 11 "[30]" 12 "[0]" 13 "[0]" 14 "[0]"
      "\<lparr>handle8 = 11, clear8 = 30\<rparr>" "\<lparr>handleB = 12, clearB = False\<rparr>"
      "\<lparr>handleB = 13, clearB = False\<rparr>" "\<lparr>handleB = 14, clearB = False\<rparr>" deployed]
  by (simp add: verifiedInputs_def mockFhevm_def applicant_def)

text \<open>
  C2. When the four proofs verify, the age is between 18 and 64 inclusive and at least one
  of the three risk flags is set, the stored and returned ciphertext decrypts to Moderate,
  which is 2.
\<close>

theorem checkEligibility_moderate:
  assumes "verifiedInputs L env ageHandle ageProof historyHandle historyProof
             chronicHandle chronicProof lifestyleHandle lifestyleProof
           = Some (age, hasHistory, hasChronic, riskyLifestyle)"
    and "18 \<le> clear8 age" and "clear8 age \<le> 64"
    and "clearB hasHistory \<or> clearB hasChronic \<or> clearB riskyLifestyle"
  shows "decryptedCategory L env ageHandle ageProof historyHandle historyProof
           chronicHandle chronicProof lifestyleHandle lifestyleProof s = Some CATEGORY_MODERATE \<and> CATEGORY_MODERATE = 2"
  using assms(2-)
  by (simp add: decryptedCategory_verified [OF assms(1)] clear8_category_of clearB_eligible_of
      clearB_moderate_of CATEGORY_MODERATE_def)

theorem checkEligibility_moderate_witness:
  "decryptedCategory mockFhevm applicant 11 [25] 12 [0] 13 [1] 14 [1] deployed = Some 2"
  using checkEligibility_moderate [of mockFhevm applicant 11 "[25]" 12 "[0]" 13 "[1]" 14 "[1]"
      "\<lparr>handle8 = 11, clear8 = 25\<rparr>" "\<lparr>handleB = 12, clearB = False\<rparr>"
      "\<lparr>handleB = 13, clearB = True\<rparr>" "\<lparr>handleB = 14, clearB = True\<rparr>" deployed]
  by (simp add: verifiedInputs_def mockFhevm_def applicant_def)

text \<open>
  C3. When the four proofs verify and the age is below 18 or above 64, the stored and
  returned ciphertext decrypts to Not Eligible, which is 3, whatever the three flags are.
  At the boundary, with no flag set: ages 17 and 65 give Not Eligible, ages 18 and 64 give
  Eligible.
\<close>

theorem checkEligibility_not_eligible:
  assumes "verifiedInputs L env ageHandle ageProof historyHandle historyProof
             chronicHandle chronicProof lifestyleHandle lifestyleProof
           = Some (age, hasHistory, hasChronic, riskyLifestyle)"
  shows "(clear8 age < 18 \<or> 64 < clear8 age \<longrightarrow>
            decryptedCategory L env ageHandle ageProof historyHandle historyProof
           chronicHandle chronicProof lifestyleHandle lifestyleProof s = Some CATEGORY_NOT_ELIGIBLE)
         \<and> (\<not> clearB hasHistory \<and> \<not> clearB hasChronic \<and> \<not> clearB riskyLifestyle \<longrightarrow>
              (clear8 age = 17 \<or> clear8 age = 65 \<longrightarrow>
                 decryptedCategory L env ageHandle ageProof historyHandle historyProof
           chronicHandle chronicProof lifestyleHandle lifestyleProof s = Some CATEGORY_NOT_ELIGIBLE)
              \<and> (clear8 age = 18 \<or> clear8 age = 64 \<longrightarrow>
                 decryptedCategory L env ageHandle ageProof historyHandle historyProof
           chronicHandle chronicProof lifestyleHandle lifestyleProof s = Some CATEGORY_ELIGIBLE))
         \<and> CATEGORY_NOT_ELIGIBLE = 3 \<and> CATEGORY_ELIGIBLE = 1"
  by (auto simp: decryptedCategory_verified [OF assms] clear8_category_of clearB_eligible_of
      clearB_moderate_of CATEGORY_NOT_ELIGIBLE_def CATEGORY_ELIGIBLE_def)

theorem checkEligibility_not_eligible_witness:
  "decryptedCategory mockFhevm applicant 11 [17] 12 [0] 13 [0] 14 [0] deployed = Some 3
   \<and> decryptedCategory mockFhevm applicant 11 [65] 12 [0] 13 [0] 14 [0] deployed = Some 3
   \<and> decryptedCategory mockFhevm applicant 11 [18] 12 [0] 13 [0] 14 [0] deployed = Some 1
   \<and> decryptedCategory mockFhevm applicant 11 [64] 12 [0] 13 [0] 14 [0] deployed = Some 1
   \<and> decryptedCategory mockFhevm applicant 11 [200] 12 [1] 13 [0] 14 [1] deployed = Some 3"
  using
    checkEligibility_not_eligible [of mockFhevm applicant 11 "[17]" 12 "[0]" 13 "[0]" 14 "[0]"
      "\<lparr>handle8 = 11, clear8 = 17\<rparr>" "\<lparr>handleB = 12, clearB = False\<rparr>"
      "\<lparr>handleB = 13, clearB = False\<rparr>" "\<lparr>handleB = 14, clearB = False\<rparr>" deployed]
    checkEligibility_not_eligible [of mockFhevm applicant 11 "[65]" 12 "[0]" 13 "[0]" 14 "[0]"
      "\<lparr>handle8 = 11, clear8 = 65\<rparr>" "\<lparr>handleB = 12, clearB = False\<rparr>"
      "\<lparr>handleB = 13, clearB = False\<rparr>" "\<lparr>handleB = 14, clearB = False\<rparr>" deployed]
    checkEligibility_not_eligible [of mockFhevm applicant 11 "[18]" 12 "[0]" 13 "[0]" 14 "[0]"
      "\<lparr>handle8 = 11, clear8 = 18\<rparr>" "\<lparr>handleB = 12, clearB = False\<rparr>"
      "\<lparr>handleB = 13, clearB = False\<rparr>" "\<lparr>handleB = 14, clearB = False\<rparr>" deployed]
    checkEligibility_not_eligible [of mockFhevm applicant 11 "[64]" 12 "[0]" 13 "[0]" 14 "[0]"
      "\<lparr>handle8 = 11, clear8 = 64\<rparr>" "\<lparr>handleB = 12, clearB = False\<rparr>"
      "\<lparr>handleB = 13, clearB = False\<rparr>" "\<lparr>handleB = 14, clearB = False\<rparr>" deployed]
    checkEligibility_not_eligible [of mockFhevm applicant 11 "[200]" 12 "[1]" 13 "[0]" 14 "[1]"
      "\<lparr>handle8 = 11, clear8 = 200\<rparr>" "\<lparr>handleB = 12, clearB = True\<rparr>"
      "\<lparr>handleB = 13, clearB = False\<rparr>" "\<lparr>handleB = 14, clearB = True\<rparr>" deployed]
  by (simp add: verifiedInputs_def mockFhevm_def applicant_def)

text \<open>
  C9. For every 8-bit age and every combination of the three flags, the category a
  successful \<^verbatim>\<open>checkEligibility\<close> stores and returns decrypts to 1, 2 or 3 and to nothing
  else, 0 included: the eligible and the moderate condition never hold together, and the
  inner select falls through to Not Eligible.
\<close>

theorem checkEligibility_category_range:
  assumes "verifiedInputs L env ageHandle ageProof historyHandle historyProof
             chronicHandle chronicProof lifestyleHandle lifestyleProof
           = Some (age, hasHistory, hasChronic, riskyLifestyle)"
  shows "decryptedCategory L env ageHandle ageProof historyHandle historyProof
           chronicHandle chronicProof lifestyleHandle lifestyleProof s \<in> {Some 1, Some 2, Some 3}
         \<and> decryptedCategory L env ageHandle ageProof historyHandle historyProof
           chronicHandle chronicProof lifestyleHandle lifestyleProof s \<noteq> Some 0
         \<and> \<not> (clearB (eligible_of L age hasHistory hasChronic riskyLifestyle)
                \<and> clearB (moderate_of L age hasHistory hasChronic riskyLifestyle))
         \<and> (\<not> clearB (eligible_of L age hasHistory hasChronic riskyLifestyle)
              \<and> \<not> clearB (moderate_of L age hasHistory hasChronic riskyLifestyle)
              \<longrightarrow> decryptedCategory L env ageHandle ageProof historyHandle historyProof
           chronicHandle chronicProof lifestyleHandle lifestyleProof s = Some CATEGORY_NOT_ELIGIBLE)"
  by (auto simp: decryptedCategory_verified [OF assms] clear8_category_of clearB_eligible_of
      clearB_moderate_of CATEGORY_NOT_ELIGIBLE_def CATEGORY_ELIGIBLE_def CATEGORY_MODERATE_def)

theorem checkEligibility_category_range_witness:
  "decryptedCategory mockFhevm applicant 11 [255] 12 [1] 13 [1] 14 [1] deployed = Some 3
   \<and> decryptedCategory mockFhevm applicant 11 [0] 12 [0] 13 [0] 14 [0] deployed = Some 3"
  using
    checkEligibility_category_range [of mockFhevm applicant 11 "[255]" 12 "[1]" 13 "[1]" 14 "[1]"
      "\<lparr>handle8 = 11, clear8 = 255\<rparr>" "\<lparr>handleB = 12, clearB = True\<rparr>"
      "\<lparr>handleB = 13, clearB = True\<rparr>" "\<lparr>handleB = 14, clearB = True\<rparr>" deployed]
    checkEligibility_category_range [of mockFhevm applicant 11 "[0]" 12 "[0]" 13 "[0]" 14 "[0]"
      "\<lparr>handle8 = 11, clear8 = 0\<rparr>" "\<lparr>handleB = 12, clearB = False\<rparr>"
      "\<lparr>handleB = 13, clearB = False\<rparr>" "\<lparr>handleB = 14, clearB = False\<rparr>" deployed]
  by (simp add: verifiedInputs_def mockFhevm_def applicant_def eligible_of_def moderate_of_def
      ageInRange_of_def riskFlags_of_def FHE_and_def FHE_or_def FHE_not_def FHE_ge_def FHE_le_def
      FHE_asEuint8_def CATEGORY_NOT_ELIGIBLE_def)

section \<open>Sequences of transactions\<close>

lemma getLastEligibility_storedPair:
  "getLastEligibility s account =
     (if fst (storedPair s account) \<noteq> 0 then storedPair s account else (0, 0))"
  by (simp add: getLastEligibility_def storedPair_def Let_def FHE_isInitialized_def FHE_toBytes32_def)

lemma checkEligibility_Inr:
  assumes "checkEligibility L env ageHandle ageProof historyHandle historyProof
             chronicHandle chronicProof lifestyleHandle lifestyleProof s = Inr r"
  shows "\<exists>age hasHistory hasChronic riskyLifestyle.
           verifiedInputs L env ageHandle ageProof historyHandle historyProof
             chronicHandle chronicProof lifestyleHandle lifestyleProof
             = Some (age, hasHistory, hasChronic, riskyLifestyle)
           \<and> r = record_result env (category_of L age hasHistory hasChronic riskyLifestyle) s"
proof (cases "verifiedInputs L env ageHandle ageProof historyHandle historyProof
             chronicHandle chronicProof lifestyleHandle lifestyleProof")
  case None
  from checkEligibility_unverified [OF None, of s] assms show ?thesis by simp
next
  case (Some v)
  obtain age hasHistory hasChronic riskyLifestyle
    where v: "v = (age, hasHistory, hasChronic, riskyLifestyle)"
    by (cases v) auto
  from checkEligibility_verified [OF Some [unfolded v], of s] assms Some v
  show ?thesis by auto
qed

lemma handle8_category_of:
  "\<exists>xs. handle8 (category_of L age hasHistory hasChronic riskyLifestyle) = resultHandle L FheSelect xs"
  by (auto simp: category_of_def Let_def FHE_select_def)

lemma invoke_Inr_storedPair:
  assumes "invoke L c s = Inr (h, s')"
  shows "storedPair s' (msg_sender (call_env c)) = (h, block_timestamp (call_env c))"
    and "account \<noteq> msg_sender (call_env c) \<Longrightarrow> storedPair s' account = storedPair s account"
    and "\<exists>xs. h = resultHandle L FheSelect xs"
proof -
  from checkEligibility_Inr [OF assms [unfolded invoke_def]]
  obtain age hasHistory hasChronic riskyLifestyle
    where "(h, s') = record_result (call_env c) (category_of L age hasHistory hasChronic riskyLifestyle) s"
    by blast
  then obtain cat where r: "(h, s') = record_result (call_env c) cat s"
    and cat: "\<exists>xs. handle8 cat = resultHandle L FheSelect xs"
    using handle8_category_of by blast
  have h: "h = handle8 cat" using record_result_handle [of "call_env c" cat s] r [symmetric] by simp
  have s': "s' = snd (record_result (call_env c) cat s)" using r [symmetric] by simp
  show "storedPair s' (msg_sender (call_env c)) = (h, block_timestamp (call_env c))"
    by (simp add: storedPair_def s' h record_result_lastCategory record_result_lastEvaluatedAt)
  show "account \<noteq> msg_sender (call_env c) \<Longrightarrow> storedPair s' account = storedPair s account"
    by (simp add: storedPair_def s' record_result_lastCategory record_result_lastEvaluatedAt)
  show "\<exists>xs. h = resultHandle L FheSelect xs" using cat h by simp
qed

lemma storedPair_run:
  assumes "storedPair s account = (case acc of None \<Rightarrow> (0, 0) | Some p \<Rightarrow> p)"
  shows "storedPair (run L cs s) account
           = (case lastSuccess L account cs s acc of None \<Rightarrow> (0, 0) | Some p \<Rightarrow> p)"
  using assms
proof (induction cs arbitrary: s acc)
  case Nil
  then show ?case by simp
next
  case (Cons c cs)
  show ?case
  proof (cases "invoke L c s")
    case (Inl e)
    then show ?thesis using Cons.IH [of s acc] Cons.prems by (simp add: transact_def)
  next
    case (Inr r)
    obtain h s' where r: "r = (h, s')" by (cases r)
    note inv = invoke_Inr_storedPair [OF Inr [unfolded r]]
    show ?thesis
    proof (cases "msg_sender (call_env c) = account")
      case True
      have "storedPair s' account = (case Some (h, block_timestamp (call_env c)) of None \<Rightarrow> (0, 0) | Some p \<Rightarrow> p)"
        using inv(1) True by simp
      from Cons.IH [OF this] show ?thesis using Inr r True by (simp add: transact_def)
    next
      case False
      have "storedPair s' account = (case acc of None \<Rightarrow> (0, 0) | Some p \<Rightarrow> p)"
        using inv(2) [of account] False Cons.prems by simp
      from Cons.IH [OF this] show ?thesis using Inr r False by (simp add: transact_def)
    qed
  qed
qed

lemma lastSuccess_timestamp:
  assumes "\<forall>c \<in> set cs. block_timestamp (call_env c) \<noteq> 0"
    and "case acc of None \<Rightarrow> True | Some p \<Rightarrow> snd p \<noteq> 0"
  shows "case lastSuccess L account cs s acc of None \<Rightarrow> True | Some p \<Rightarrow> snd p \<noteq> 0"
  using assms
proof (induction cs arbitrary: s acc)
  case Nil
  then show ?case by simp
next
  case (Cons c cs)
  have "case (case invoke L c s of Inl e \<Rightarrow> acc
          | Inr (h, s') \<Rightarrow> if msg_sender (call_env c) = account
              then Some (h, block_timestamp (call_env c)) else acc) of
          None \<Rightarrow> True | Some p \<Rightarrow> snd p \<noteq> 0"
    using Cons.prems by (auto split: sum.splits)
  from Cons.IH [OF _ this] Cons.prems show ?case by simp
qed

lemma lastSuccess_handle:
  assumes "\<forall>xs. resultHandle L FheSelect xs \<noteq> 0"
    and "case acc of None \<Rightarrow> True | Some p \<Rightarrow> fst p \<noteq> 0"
  shows "case lastSuccess L account cs s acc of None \<Rightarrow> True | Some p \<Rightarrow> fst p \<noteq> 0"
  using assms
proof (induction cs arbitrary: s acc)
  case Nil
  then show ?case by simp
next
  case (Cons c cs)
  have "case (case invoke L c s of Inl e \<Rightarrow> acc
          | Inr (h, s') \<Rightarrow> if msg_sender (call_env c) = account
              then Some (h, block_timestamp (call_env c)) else acc) of
          None \<Rightarrow> True | Some p \<Rightarrow> fst p \<noteq> 0"
    using Cons.prems invoke_Inr_storedPair(3) [of L c s] by (auto split: sum.splits)
  from Cons.IH [OF Cons.prems(1) this] show ?case by simp
qed

lemma storedPair_deployed: "storedPair deployed account = (0, 0)"
  by (simp add: storedPair_def deployed_def)

section \<open>The result store\<close>

text \<open>
  C4. For every caller, every prior state and every four inputs whose proofs verify,
  \<^verbatim>\<open>checkEligibility\<close> succeeds and overwrites the caller's record: right afterwards
  \<^verbatim>\<open>getLastEligibility\<close> of the caller returns the handle the call returned together
  with the block timestamp of the call, and the event log has grown by one
  \<^verbatim>\<open>EligibilityEvaluated\<close> event carrying the caller, that handle and that timestamp.
  The library hands out initialised (nonzero) handles for the ciphertexts it computes; that
  is the second premise.
\<close>

theorem checkEligibility_stores_result:
  assumes "verifiedInputs L env ageHandle ageProof historyHandle historyProof
             chronicHandle chronicProof lifestyleHandle lifestyleProof
           = Some (age, hasHistory, hasChronic, riskyLifestyle)"
    and "FHE_isInitialized (category_of L age hasHistory hasChronic riskyLifestyle)"
  shows "\<exists>h s'. checkEligibility L env ageHandle ageProof historyHandle historyProof
             chronicHandle chronicProof lifestyleHandle lifestyleProof s = Inr (h, s')
           \<and> getLastEligibility s' (msg_sender env) = (h, block_timestamp env)
           \<and> events s' = events s @ [EligibilityEvaluated (msg_sender env) h (block_timestamp env)]"
proof -
  let ?cat = "category_of L age hasHistory hasChronic riskyLifestyle"
  obtain h s' where r: "record_result env ?cat s = (h, s')"
    by (cases "record_result env ?cat s")
  have h: "h = handle8 ?cat" using record_result_handle [of env ?cat s] r by simp
  have s': "s' = snd (record_result env ?cat s)" using r by simp
  have "getLastEligibility s' (msg_sender env) = (h, block_timestamp env)"
    using assms(2)
    by (simp add: getLastEligibility_def Let_def s' h record_result_lastCategory
        record_result_lastEvaluatedAt FHE_toBytes32_def)
  moreover have "events s' = events s @ [EligibilityEvaluated (msg_sender env) h (block_timestamp env)]"
    by (simp add: s' h record_result_events)
  ultimately show ?thesis
    using checkEligibility_verified [OF assms(1), of s] r by simp
qed

theorem checkEligibility_stores_result_witness:
  "\<exists>s'. invoke mockFhevm exampleCall deployed = Inr (7, s')
        \<and> getLastEligibility s' 0xA11CE = (7, 1700000000)
        \<and> events s' = [EligibilityEvaluated 0xA11CE 7 1700000000]"
  using checkEligibility_stores_result [of mockFhevm applicant 11 "[30]" 12 "[0]" 13 "[0]" 14 "[0]"
      "\<lparr>handle8 = 11, clear8 = 30\<rparr>" "\<lparr>handleB = 12, clearB = False\<rparr>"
      "\<lparr>handleB = 13, clearB = False\<rparr>" "\<lparr>handleB = 14, clearB = False\<rparr>" deployed]
  by (simp add: verifiedInputs_def mockFhevm_def applicant_def invoke_def exampleCall_def
      deployed_def FHE_isInitialized_def category_of_def Let_def FHE_select_def
      checkEligibility_def FHE_fromExternal_euint8_def FHE_fromExternal_ebool_def
      record_result_def FHE_allow_def FHE_allowThis_def FHE_toBytes32_def emit_def)

text \<open>
  C5. When any of the four proofs does not verify for its handle, the sender and the
  contract, \<^verbatim>\<open>checkEligibility\<close> reverts with the proof verification error, and the
  transaction leaves every prior state as it was; in particular the caller's handle and
  timestamp read the same after the failed call as before it.
\<close>

theorem checkEligibility_reverts_atomically:
  assumes "verifyEuint8 L (this_address (call_env c)) (msg_sender (call_env c))
               (arg_ageHandle c) (arg_ageProof c) = None
           \<or> verifyEbool L (this_address (call_env c)) (msg_sender (call_env c))
               (arg_historyHandle c) (arg_historyProof c) = None
           \<or> verifyEbool L (this_address (call_env c)) (msg_sender (call_env c))
               (arg_chronicHandle c) (arg_chronicProof c) = None
           \<or> verifyEbool L (this_address (call_env c)) (msg_sender (call_env c))
               (arg_lifestyleHandle c) (arg_lifestyleProof c) = None"
  shows "invoke L c s = Inl ProofVerificationError
         \<and> transact L c s = s
         \<and> getLastEligibility (transact L c s) (msg_sender (call_env c))
             = getLastEligibility s (msg_sender (call_env c))"
proof -
  have "verifiedInputs L (call_env c) (arg_ageHandle c) (arg_ageProof c)
          (arg_historyHandle c) (arg_historyProof c) (arg_chronicHandle c) (arg_chronicProof c)
          (arg_lifestyleHandle c) (arg_lifestyleProof c) = None"
    using assms by (auto simp: verifiedInputs_def split: option.splits)
  from checkEligibility_unverified [OF this, of s]
  show ?thesis by (simp add: invoke_def transact_def)
qed

theorem checkEligibility_reverts_atomically_witness:
  "invoke mockFhevm exampleBadCall (transact mockFhevm exampleCall deployed)
     = Inl ProofVerificationError
   \<and> getLastEligibility
        (transact mockFhevm exampleBadCall (transact mockFhevm exampleCall deployed)) 0xA11CE
      = (7, 1700000000)"
  using checkEligibility_reverts_atomically [of mockFhevm exampleBadCall
      "transact mockFhevm exampleCall deployed"]
  by (simp add: mockFhevm_def exampleBadCall_def exampleCall_def applicant_def
      transact_def invoke_def checkEligibility_def FHE_fromExternal_euint8_def
      FHE_fromExternal_ebool_def record_result_def Let_def FHE_allow_def FHE_allowThis_def
      FHE_toBytes32_def emit_def category_of_def FHE_select_def getLastEligibility_def
      FHE_isInitialized_def deployed_def)

text \<open>
  C6. After any sequence of transactions on the freshly deployed contract in which an
  account has no successful \<^verbatim>\<open>checkEligibility\<close>, \<^verbatim>\<open>getLastEligibility\<close> of that
  account returns the zero handle and the zero timestamp. The function has no failing
  branch: it returns a pair for every state and account.
\<close>

theorem getLastEligibility_never_evaluated:
  assumes "lastSuccess L account cs deployed None = None"
  shows "getLastEligibility (run L cs deployed) account = (0, 0)"
  using storedPair_run [of deployed account None L cs] assms
  by (simp add: storedPair_deployed getLastEligibility_storedPair)

theorem getLastEligibility_never_evaluated_witness:
  "getLastEligibility
     (run mockFhevm [exampleCall, exampleBadCall\<lparr>call_env := otherApplicant\<rparr>] deployed) 0xB0B
   = (0, 0)"
  using getLastEligibility_never_evaluated [of mockFhevm "0xB0B"
      "[exampleCall, exampleBadCall\<lparr>call_env := otherApplicant\<rparr>]"]
  by (simp add: mockFhevm_def exampleBadCall_def exampleCall_def applicant_def otherApplicant_def
      transact_def invoke_def checkEligibility_def FHE_fromExternal_euint8_def
      FHE_fromExternal_ebool_def)

text \<open>
  C7. A successful \<^verbatim>\<open>checkEligibility\<close> changes the two mappings at the caller's key
  only: every other account reads the same handle and timestamp before and after, and the
  caller's slot is overwritten by the new ciphertext and the new timestamp. The store is
  a mapping from accounts to one slot each, so there is one record per account and no
  history.
\<close>

theorem checkEligibility_frame:
  assumes "checkEligibility L env ageHandle ageProof historyHandle historyProof
             chronicHandle chronicProof lifestyleHandle lifestyleProof s = Inr (h, s')"
  shows "(\<forall>other. other \<noteq> msg_sender env \<longrightarrow>
            getLastEligibility s' other = getLastEligibility s other)
         \<and> (\<exists>category. handle8 category = h
               \<and> lastCategory s' = (lastCategory s)(msg_sender env := category))
         \<and> lastEvaluatedAt s' = (lastEvaluatedAt s)(msg_sender env := block_timestamp env)"
proof -
  from checkEligibility_Inr [OF assms]
  obtain category where r: "(h, s') = record_result env category s" by blast
  have h: "h = handle8 category" using record_result_handle [of env category s] r [symmetric] by simp
  have s': "s' = snd (record_result env category s)" using r [symmetric] by simp
  show ?thesis
    by (auto simp: s' h getLastEligibility_def Let_def record_result_lastCategory
        record_result_lastEvaluatedAt)
qed

theorem checkEligibility_frame_witness:
  "getLastEligibility (transact mockFhevm (exampleCall\<lparr>call_env := otherApplicant\<rparr>)
       (transact mockFhevm exampleCall deployed)) 0xA11CE
   = getLastEligibility (transact mockFhevm exampleCall deployed) 0xA11CE"
  using checkEligibility_frame [of mockFhevm otherApplicant 11 "[30]" 12 "[0]" 13 "[0]" 14 "[0]"
      "transact mockFhevm exampleCall deployed" 7
      "transact mockFhevm (exampleCall\<lparr>call_env := otherApplicant\<rparr>)
         (transact mockFhevm exampleCall deployed)"]
  by (simp add: mockFhevm_def exampleCall_def applicant_def otherApplicant_def
      transact_def invoke_def checkEligibility_def FHE_fromExternal_euint8_def
      FHE_fromExternal_ebool_def record_result_def Let_def FHE_allow_def FHE_allowThis_def
      FHE_toBytes32_def emit_def category_of_def FHE_select_def)

text \<open>
  C10. In every state reached from deployment by transactions with nonzero block
  timestamps, for every account, \<^verbatim>\<open>getLastEligibility\<close> returns the handle and the
  timestamp of the account's most recent successful \<^verbatim>\<open>checkEligibility\<close>, or the
  all-zero pair when there is none; it returns the all-zero pair exactly when there is
  none; and the handle is zero exactly when the timestamp is. The library hands out
  nonzero handles for the ciphertexts it computes; that is the second premise.
\<close>

theorem getLastEligibility_coherent:
  assumes "\<forall>c \<in> set cs. block_timestamp (call_env c) \<noteq> 0"
    and "\<forall>xs. resultHandle L FheSelect xs \<noteq> 0"
  shows "getLastEligibility (run L cs deployed) account
           = (case lastSuccess L account cs deployed None of None \<Rightarrow> (0, 0) | Some p \<Rightarrow> p)
         \<and> (getLastEligibility (run L cs deployed) account = (0, 0)
              \<longleftrightarrow> lastSuccess L account cs deployed None = None)
         \<and> (fst (getLastEligibility (run L cs deployed) account) = 0
              \<longleftrightarrow> snd (getLastEligibility (run L cs deployed) account) = 0)"
proof -
  let ?last = "lastSuccess L account cs deployed None"
  have sp: "storedPair (run L cs deployed) account = (case ?last of None \<Rightarrow> (0, 0) | Some p \<Rightarrow> p)"
    using storedPair_run [of deployed account None L cs] by (simp add: storedPair_deployed)
  have t: "case ?last of None \<Rightarrow> True | Some p \<Rightarrow> snd p \<noteq> 0"
    using lastSuccess_timestamp [OF assms(1), of None L account deployed] by simp
  have h: "case ?last of None \<Rightarrow> True | Some p \<Rightarrow> fst p \<noteq> 0"
    using lastSuccess_handle [OF assms(2), of None account cs deployed] by simp
  show ?thesis
    using sp t h by (cases ?last) (auto simp: getLastEligibility_storedPair)
qed

theorem getLastEligibility_coherent_witness:
  "getLastEligibility (run mockFhevm [exampleCall, exampleBadCall] deployed) 0xA11CE
     = (7, 1700000000)
   \<and> getLastEligibility (run mockFhevm [exampleCall, exampleBadCall] deployed) 0xB0B = (0, 0)"
  using getLastEligibility_coherent [of "[exampleCall, exampleBadCall]" mockFhevm "0xA11CE"]
    getLastEligibility_coherent [of "[exampleCall, exampleBadCall]" mockFhevm "0xB0B"]
  by (simp add: mockFhevm_def exampleBadCall_def exampleCall_def applicant_def
      transact_def invoke_def checkEligibility_def FHE_fromExternal_euint8_def
      FHE_fromExternal_ebool_def record_result_def Let_def FHE_allow_def FHE_allowThis_def
      FHE_toBytes32_def emit_def category_of_def FHE_select_def)

section \<open>A rejected signature\<close>







end
